theory Spec2Isabelle
  imports Complex_Main
begin

section \<open>Python values and errors\<close>

text \<open>
  The dashboard script \<^verbatim>\<open>app.py\<close> reads a metadata dictionary \<^verbatim>\<open>info\<close> whose values
  are numbers, strings or \<^verbatim>\<open>None\<close>. A finite Python number (int or float) is modelled by
  the real number it denotes and arithmetic on it is exact; the float \<^verbatim>\<open>nan\<close> is a value of
  its own, because the script tests for it (\<^verbatim>\<open>pd.isna\<close>) and because it is truthy.
  Infinities are left out. Every exception the script can raise while it evaluates an
  expression is a value of \<open>py_error\<close>.
\<close>

datatype py_error = TypeError | ValueError | ZeroDivisionError | KeyError | AttributeError

datatype pyval = PyNone | PyNum real | PyNaN | PyStr string

type_synonym info = "string \<rightharpoonup> pyval"

text \<open>\<^verbatim>\<open>info.get(k)\<close> and \<^verbatim>\<open>info.get(k, d)\<close>: the default is used only when the key is
  missing, a key bound to \<^verbatim>\<open>None\<close> yields \<^verbatim>\<open>None\<close>.\<close>

definition get :: "info \<Rightarrow> string \<Rightarrow> pyval" where
  "get info k = (case info k of None \<Rightarrow> PyNone | Some v \<Rightarrow> v)"

definition get_default :: "info \<Rightarrow> string \<Rightarrow> pyval \<Rightarrow> pyval" where
  "get_default info k d = (case info k of None \<Rightarrow> d | Some v \<Rightarrow> v)"

text \<open>Truth value testing: \<^verbatim>\<open>None\<close>, zero and the empty string are false, \<^verbatim>\<open>nan\<close> is true.\<close>

fun truthy :: "pyval \<Rightarrow> bool" where
  "truthy PyNone = False"
| "truthy (PyNum x) = (x \<noteq> 0)"
| "truthy PyNaN = True"
| "truthy (PyStr s) = (s \<noteq> [])"

text \<open>\<^verbatim>\<open>a or b\<close> and \<^verbatim>\<open>a and b\<close> return one of their operands.\<close>

definition py_or :: "pyval \<Rightarrow> pyval \<Rightarrow> pyval" where
  "py_or a b = (if truthy a then a else b)"

definition py_and :: "pyval \<Rightarrow> pyval \<Rightarrow> pyval" where
  "py_and a b = (if truthy a then b else a)"

text \<open>The arithmetic the script applies to metadata values. A string times an int is
  repetition; everything else that is not a number raises \<^verbatim>\<open>TypeError\<close>.\<close>

fun py_sub :: "pyval \<Rightarrow> pyval \<Rightarrow> py_error + pyval" where
  "py_sub (PyNum a) (PyNum b) = Inr (PyNum (a - b))"
| "py_sub (PyNum a) PyNaN = Inr PyNaN"
| "py_sub PyNaN (PyNum b) = Inr PyNaN"
| "py_sub PyNaN PyNaN = Inr PyNaN"
| "py_sub _ _ = Inl TypeError"

fun py_div :: "pyval \<Rightarrow> pyval \<Rightarrow> py_error + pyval" where
  "py_div (PyNum a) (PyNum b) = (if b = 0 then Inl ZeroDivisionError else Inr (PyNum (a / b)))"
| "py_div (PyNum a) PyNaN = Inr PyNaN"
| "py_div PyNaN (PyNum b) = (if b = 0 then Inl ZeroDivisionError else Inr PyNaN)"
| "py_div PyNaN PyNaN = Inr PyNaN"
| "py_div _ _ = Inl TypeError"

fun py_mul100 :: "pyval \<Rightarrow> py_error + pyval" where
  "py_mul100 (PyNum a) = Inr (PyNum (a * 100))"
| "py_mul100 PyNaN = Inr PyNaN"
| "py_mul100 (PyStr s) = Inr (PyStr (concat (replicate 100 s)))"
| "py_mul100 PyNone = Inl TypeError"

section \<open>Fixed-point formatting\<close>

text \<open>
  The format specifications the script uses: \<^verbatim>\<open>.2f\<close>, \<^verbatim>\<open>+.2f\<close> and \<^verbatim>\<open>,.0f\<close>. Python rounds
  the value to the requested number of decimals, ties to even, and prints the sign of the
  value also when the rounded magnitude is zero.
\<close>

definition digit_char :: "nat \<Rightarrow> char" where
  "digit_char d = ''0123456789'' ! (d mod 10)"

fun show_nat :: "nat \<Rightarrow> string" where
  "show_nat n = (if n < 10 then [digit_char n] else show_nat (n div 10) @ [digit_char (n mod 10)])"

declare show_nat.simps [simp del]

definition round_half_even :: "real \<Rightarrow> int" where
  "round_half_even x =
     (let f = \<lfloor>x\<rfloor>; d = x - of_int f
      in if d < 1 / 2 then f else if 1 / 2 < d then f + 1 else if even f then f else f + 1)"

definition fixed2 :: "real \<Rightarrow> string" where
  "fixed2 x =
     (let n = nat (round_half_even (\<bar>x\<bar> * 100))
      in show_nat (n div 100) @ ''.'' @ [digit_char (n div 10 mod 10), digit_char (n mod 10)])"

text \<open>Digits of a natural number in groups of three, as the \<^verbatim>\<open>,\<close> option prints them.\<close>

fun show_grouped :: "nat \<Rightarrow> string" where
  "show_grouped n =
     (if n < 1000 then show_nat n
      else show_grouped (n div 1000) @ '','' @
           [digit_char (n div 100 mod 10), digit_char (n div 10 mod 10), digit_char (n mod 10)])"

declare show_grouped.simps [simp del]

definition sign_str :: "real \<Rightarrow> string" where
  "sign_str x = (if x < 0 then ''-'' else '''')"

definition plus_sign_str :: "real \<Rightarrow> string" where
  "plus_sign_str x = (if x < 0 then ''-'' else ''+'')"

text \<open>\<^verbatim>\<open>format(x, '.2f')\<close>, \<^verbatim>\<open>format(x, '+.2f')\<close> and \<^verbatim>\<open>format(x, ',.0f')\<close> on a finite number.\<close>

definition fmt_2f :: "real \<Rightarrow> string" where
  "fmt_2f x = sign_str x @ fixed2 x"

definition fmt_plus_2f :: "real \<Rightarrow> string" where
  "fmt_plus_2f x = plus_sign_str x @ fixed2 x"

definition fmt_comma_0f :: "real \<Rightarrow> string" where
  "fmt_comma_0f x = sign_str x @ show_grouped (nat (round_half_even \<bar>x\<bar>))"

text \<open>The same on any value: \<^verbatim>\<open>None\<close> has no format specification (\<^verbatim>\<open>TypeError\<close>), a string
  has no format code \<^verbatim>\<open>f\<close> (\<^verbatim>\<open>ValueError\<close>).\<close>

fun format_2f :: "pyval \<Rightarrow> py_error + string" where
  "format_2f (PyNum x) = Inr (fmt_2f x)"
| "format_2f PyNaN = Inr ''nan''"
| "format_2f PyNone = Inl TypeError"
| "format_2f (PyStr s) = Inl ValueError"

fun format_plus_2f :: "pyval \<Rightarrow> py_error + string" where
  "format_plus_2f (PyNum x) = Inr (fmt_plus_2f x)"
| "format_plus_2f PyNaN = Inr ''+nan''"
| "format_plus_2f PyNone = Inl TypeError"
| "format_plus_2f (PyStr s) = Inl ValueError"

fun format_comma_0f :: "pyval \<Rightarrow> py_error + string" where
  "format_comma_0f (PyNum x) = Inr (fmt_comma_0f x)"
| "format_comma_0f PyNaN = Inr ''nan''"
| "format_comma_0f PyNone = Inl TypeError"
| "format_comma_0f (PyStr s) = Inl ValueError"

section \<open>The magnitude formatter\<close>

text \<open>
  \<^verbatim>\<open>
  def format_large_number(num):
      if num is None or pd.isna(num):
          return "N/A"
      if abs(num) >= 1e12:
          return f"${num/1e12:.2f}T"
      elif abs(num) >= 1e9:
          return f"${num/1e9:.2f}B"
      elif abs(num) >= 1e6:
          return f"${num/1e6:.2f}M"
      elif abs(num) >= 1e3:
          return f"${num/1e3:.2f}K"
      else:
          return f"${num:.2f}"
  \<close>
  \<^verbatim>\<open>pd.isna\<close> of a string is false, and \<^verbatim>\<open>abs\<close> of a string raises \<^verbatim>\<open>TypeError\<close>.
\<close>

fun format_large_number :: "pyval \<Rightarrow> py_error + string" where
  "format_large_number PyNone = Inr ''N/A''"
| "format_large_number PyNaN = Inr ''N/A''"
| "format_large_number (PyStr s) = Inl TypeError"
| "format_large_number (PyNum num) =
     (if \<bar>num\<bar> \<ge> 10 ^ 12 then Inr (''$'' @ fmt_2f (num / 10 ^ 12) @ ''T'')
      else if \<bar>num\<bar> \<ge> 10 ^ 9 then Inr (''$'' @ fmt_2f (num / 10 ^ 9) @ ''B'')
      else if \<bar>num\<bar> \<ge> 10 ^ 6 then Inr (''$'' @ fmt_2f (num / 10 ^ 6) @ ''M'')
      else if \<bar>num\<bar> \<ge> 10 ^ 3 then Inr (''$'' @ fmt_2f (num / 10 ^ 3) @ ''K'')
      else Inr (''$'' @ fmt_2f num))"


section \<open>Sequencing of results\<close>

text \<open>An expression that raises aborts everything after it. A list display evaluates its
  items from left to right, so the first item that raises decides the result.\<close>

definition bind_res :: "'e + 'a \<Rightarrow> ('a \<Rightarrow> 'e + 'b) \<Rightarrow> 'e + 'b" where
  "bind_res r f = (case r of Inl e \<Rightarrow> Inl e | Inr v \<Rightarrow> f v)"

definition map_res :: "('a \<Rightarrow> 'b) \<Rightarrow> 'e + 'a \<Rightarrow> 'e + 'b" where
  "map_res f r = (case r of Inl e \<Rightarrow> Inl e | Inr v \<Rightarrow> Inr (f v))"

fun sequence_res :: "('e + 'a) list \<Rightarrow> 'e + 'a list" where
  "sequence_res [] = Inr []"
| "sequence_res (r # rs) =
     (case r of Inl e \<Rightarrow> Inl e
      | Inr v \<Rightarrow> (case sequence_res rs of Inl e \<Rightarrow> Inl e | Inr vs \<Rightarrow> Inr (v # vs)))"

section \<open>The key metric tiles\<close>

text \<open>
  \<^verbatim>\<open>
  current_price = info.get('currentPrice') or info.get('regularMarketPrice', 0)
  previous_close = info.get('previousClose', 0)
  price_change = current_price - previous_close if current_price and previous_close else 0
  price_change_pct = (price_change / previous_close * 100) if previous_close else 0
  \<close>
\<close>

definition current_price :: "info \<Rightarrow> pyval" where
  "current_price info =
     py_or (get info ''currentPrice'') (get_default info ''regularMarketPrice'' (PyNum 0))"

definition previous_close :: "info \<Rightarrow> pyval" where
  "previous_close info = get_default info ''previousClose'' (PyNum 0)"

definition price_change :: "info \<Rightarrow> py_error + pyval" where
  "price_change info =
     (if truthy (py_and (current_price info) (previous_close info))
      then py_sub (current_price info) (previous_close info)
      else Inr (PyNum 0))"

definition price_change_pct :: "info \<Rightarrow> py_error + pyval" where
  "price_change_pct info =
     bind_res (price_change info) (\<lambda>change.
       if truthy (previous_close info)
       then bind_res (py_div change (previous_close info)) py_mul100
       else Inr (PyNum 0))"

text \<open>
  The first tile is \<^verbatim>\<open>st.metric("Current Price", value, delta)\<close> with
  \<^verbatim>\<open>
  value = f"${current_price:.2f}" if current_price else "N/A"
  delta = f"{price_change:+.2f} ({price_change_pct:+.2f}%)" if price_change else None
  \<close>
\<close>

definition price_value :: "info \<Rightarrow> py_error + string" where
  "price_value info =
     (if truthy (current_price info)
      then map_res (\<lambda>s. ''$'' @ s) (format_2f (current_price info))
      else Inr ''N/A'')"

definition price_delta :: "info \<Rightarrow> py_error + string option" where
  "price_delta info =
     bind_res (price_change info) (\<lambda>change.
     bind_res (price_change_pct info) (\<lambda>pct.
       if truthy change
       then bind_res (format_plus_2f change) (\<lambda>a.
            bind_res (format_plus_2f pct) (\<lambda>b. Inr (Some (a @ '' ('' @ b @ ''%)''))))
       else Inr None))"

definition price_tile :: "info \<Rightarrow> py_error + string \<times> string option" where
  "price_tile info =
     bind_res (price_change_pct info) (\<lambda>pct.
     bind_res (price_value info) (\<lambda>v.
     bind_res (price_delta info) (\<lambda>d. Inr (v, d))))"

text \<open>
  \<^verbatim>\<open>
  st.metric("Market Cap", format_large_number(info.get('marketCap')))
  st.metric("P/E Ratio", f"{pe_ratio:.2f}" if pe_ratio else "N/A")
  st.metric("Dividend Yield", f"{dividend_yield*100:.2f}%" if dividend_yield else "N/A")
  volume = info.get('volume') or info.get('regularMarketVolume')
  st.metric("Volume", f"{volume:,.0f}" if volume else "N/A")
  \<close>
\<close>

definition market_cap_tile :: "info \<Rightarrow> py_error + string" where
  "market_cap_tile info = format_large_number (get info ''marketCap'')"

definition pe_ratio_tile :: "info \<Rightarrow> py_error + string" where
  "pe_ratio_tile info =
     (let pe_ratio = get info ''trailingPE''
      in if truthy pe_ratio then format_2f pe_ratio else Inr ''N/A'')"

definition dividend_yield_tile :: "info \<Rightarrow> py_error + string" where
  "dividend_yield_tile info =
     (let dividend_yield = get info ''dividendYield''
      in if truthy dividend_yield
         then map_res (\<lambda>s. s @ ''%'') (bind_res (py_mul100 dividend_yield) format_2f)
         else Inr ''N/A'')"

definition volume_tile :: "info \<Rightarrow> py_error + string" where
  "volume_tile info =
     (let volume = py_or (get info ''volume'') (get info ''regularMarketVolume'')
      in if truthy volume then format_comma_0f volume else Inr ''N/A'')"

text \<open>The five tiles in the order the script draws them; the first that raises ends the run.\<close>

definition key_metrics :: "info \<Rightarrow> py_error + (string \<times> string option) \<times> string list" where
  "key_metrics info =
     bind_res (price_tile info) (\<lambda>t.
     bind_res (sequence_res [market_cap_tile info, pe_ratio_tile info,
                             dividend_yield_tile info, volume_tile info]) (\<lambda>ts. Inr (t, ts)))"

section \<open>The financial metrics table\<close>

text \<open>
  The \<^verbatim>\<open>Value\<close> column is a list of 23 expressions of six shapes. Each shape is one function
  here, named after what it prints; \<^verbatim>\<open>k\<close>, \<^verbatim>\<open>k1\<close>, \<^verbatim>\<open>k2\<close> are the keys of the row.
  \<^verbatim>\<open>
  f"${info.get(k1, info.get(k2, 'N/A')):.2f}" if info.get(k1) or info.get(k2) else "N/A"
  f"${info.get(k, 'N/A'):.2f}" if info.get(k) else "N/A"
  f"{info.get(k, 'N/A'):.2f}" if info.get(k) else "N/A"
  f"{info.get(k, 0)*100:.2f}%" if info.get(k) else "N/A"
  f"{info.get(k1, info.get(k2, 'N/A')):,.0f}" if info.get(k1) or info.get(k2) else "N/A"
  f"{info.get(k, 'N/A'):,.0f}" if info.get(k) else "N/A"
  \<close>
  The guard reads \<^verbatim>\<open>info.get(k1) or info.get(k2)\<close>, while the value printed is
  \<^verbatim>\<open>info.get(k1, info.get(k2, 'N/A'))\<close>: the second key is read only when the first is
  missing from the dictionary.
\<close>

definition dollar_row2 :: "info \<Rightarrow> string \<Rightarrow> string \<Rightarrow> py_error + string" where
  "dollar_row2 info k1 k2 =
     (if truthy (py_or (get info k1) (get info k2))
      then map_res (\<lambda>s. ''$'' @ s)
             (format_2f (get_default info k1 (get_default info k2 (PyStr ''N/A''))))
      else Inr ''N/A'')"

definition dollar_row :: "info \<Rightarrow> string \<Rightarrow> py_error + string" where
  "dollar_row info k =
     (if truthy (get info k)
      then map_res (\<lambda>s. ''$'' @ s) (format_2f (get_default info k (PyStr ''N/A'')))
      else Inr ''N/A'')"

definition plain_row :: "info \<Rightarrow> string \<Rightarrow> py_error + string" where
  "plain_row info k =
     (if truthy (get info k) then format_2f (get_default info k (PyStr ''N/A'')) else Inr ''N/A'')"

definition percent_row :: "info \<Rightarrow> string \<Rightarrow> py_error + string" where
  "percent_row info k =
     (if truthy (get info k)
      then map_res (\<lambda>s. s @ ''%'') (bind_res (py_mul100 (get_default info k (PyNum 0))) format_2f)
      else Inr ''N/A'')"

definition comma_row2 :: "info \<Rightarrow> string \<Rightarrow> string \<Rightarrow> py_error + string" where
  "comma_row2 info k1 k2 =
     (if truthy (py_or (get info k1) (get info k2))
      then format_comma_0f (get_default info k1 (get_default info k2 (PyStr ''N/A'')))
      else Inr ''N/A'')"

definition comma_row :: "info \<Rightarrow> string \<Rightarrow> py_error + string" where
  "comma_row info k =
     (if truthy (get info k) then format_comma_0f (get_default info k (PyStr ''N/A''))
      else Inr ''N/A'')"

definition large_row :: "info \<Rightarrow> string \<Rightarrow> py_error + string" where
  "large_row info k = format_large_number (get info k)"

definition financial_metrics :: "string list" where
  "financial_metrics =
     [''Current Price'', ''Previous Close'', ''Open'', ''Day High'', ''Day Low'',
      ''52 Week High'', ''52 Week Low'', ''Market Cap'', ''P/E Ratio (Trailing)'',
      ''P/E Ratio (Forward)'', ''PEG Ratio'', ''Price to Book'', ''EPS (TTM)'',
      ''Dividend Yield'', ''Dividend Rate'', ''Beta'', ''Volume'', ''Avg Volume'', ''Revenue'',
      ''Profit Margin'', ''Operating Margin'', ''ROE'', ''ROA'']"

definition financial_rows :: "info \<Rightarrow> (py_error + string) list" where
  "financial_rows info =
     [dollar_row2 info ''currentPrice'' ''regularMarketPrice'',
      dollar_row info ''previousClose'',
      dollar_row2 info ''open'' ''regularMarketOpen'',
      dollar_row2 info ''dayHigh'' ''regularMarketDayHigh'',
      dollar_row2 info ''dayLow'' ''regularMarketDayLow'',
      dollar_row info ''fiftyTwoWeekHigh'',
      dollar_row info ''fiftyTwoWeekLow'',
      large_row info ''marketCap'',
      plain_row info ''trailingPE'',
      plain_row info ''forwardPE'',
      plain_row info ''pegRatio'',
      plain_row info ''priceToBook'',
      dollar_row info ''trailingEps'',
      percent_row info ''dividendYield'',
      dollar_row info ''dividendRate'',
      plain_row info ''beta'',
      comma_row2 info ''volume'' ''regularMarketVolume'',
      comma_row info ''averageVolume'',
      large_row info ''totalRevenue'',
      percent_row info ''profitMargins'',
      percent_row info ''operatingMargins'',
      percent_row info ''returnOnEquity'',
      percent_row info ''returnOnAssets'']"

text \<open>\<^verbatim>\<open>financial_data["Value"]\<close>: the list is built only if no item raises.\<close>

definition financial_values :: "info \<Rightarrow> py_error + string list" where
  "financial_values info = sequence_res (financial_rows info)"

text \<open>\<^verbatim>\<open>financial_df\<close>: the two columns side by side, one record per metric.\<close>

definition financial_df :: "info \<Rightarrow> py_error + (string \<times> string) list" where
  "financial_df info = map_res (zip financial_metrics) (financial_values info)"

text \<open>The keys each row of the table reads, by row index (from 0).\<close>

definition row_keys :: "(nat \<times> string list) list" where
  "row_keys =
     [(0, [''currentPrice'', ''regularMarketPrice'']), (1, [''previousClose'']),
      (2, [''open'', ''regularMarketOpen'']), (3, [''dayHigh'', ''regularMarketDayHigh'']),
      (4, [''dayLow'', ''regularMarketDayLow'']), (5, [''fiftyTwoWeekHigh'']),
      (6, [''fiftyTwoWeekLow'']), (7, [''marketCap'']), (8, [''trailingPE'']),
      (9, [''forwardPE'']), (10, [''pegRatio'']), (11, [''priceToBook'']),
      (12, [''trailingEps'']), (13, [''dividendYield'']), (14, [''dividendRate'']),
      (15, [''beta'']), (16, [''volume'', ''regularMarketVolume'']), (17, [''averageVolume'']),
      (18, [''totalRevenue'']), (19, [''profitMargins'']), (20, [''operatingMargins'']),
      (21, [''returnOnEquity'']), (22, [''returnOnAssets''])]"

text \<open>The rows whose guard is the truth value of their keys, and the two rows that go
  through the magnitude formatter instead.\<close>

definition truthiness_rows :: "nat list" where
  "truthiness_rows = [0, 1, 2, 3, 4, 5, 6, 8, 9, 10, 11, 12, 13, 14, 15, 16, 17, 19, 20, 21, 22]"

definition magnitude_rows :: "nat list" where
  "magnitude_rows = [7, 18]"


section \<open>The price history\<close>

text \<open>
  \<^verbatim>\<open>hist\<close> is the data frame the provider returns: one row per trading day, indexed by the
  day (the index is named \<^verbatim>\<open>Date\<close>), with the columns \<^verbatim>\<open>Open\<close>, \<^verbatim>\<open>High\<close>, \<^verbatim>\<open>Low\<close>, \<^verbatim>\<open>Close\<close>
  and \<^verbatim>\<open>Volume\<close>. Further columns (the provider's \<^verbatim>\<open>Dividends\<close> and \<^verbatim>\<open>Stock Splits\<close>, and
  the moving averages the script adds) are kept by name, in column order; a cell of such a
  column is \<open>None\<close> where pandas has \<^verbatim>\<open>NaN\<close>.
\<close>

record timestamp =
  year :: nat
  month :: nat
  day :: nat

record bar =
  Date :: timestamp
  Open :: real
  High :: real
  Low :: real
  Close :: real
  Volume :: int

record frame =
  bars :: "bar list"
  extra :: "(string \<times> real option list) list"

text \<open>\<^verbatim>\<open>hist[name] = series\<close> replaces the column of that name, or appends a new last column.\<close>

fun set_column :: "string \<Rightarrow> 'a \<Rightarrow> (string \<times> 'a) list \<Rightarrow> (string \<times> 'a) list" where
  "set_column name series [] = [(name, series)]"
| "set_column name series (c # cs) =
     (if fst c = name then (name, series) # cs else c # set_column name series cs)"

definition assign_column :: "frame \<Rightarrow> string \<Rightarrow> real option list \<Rightarrow> frame" where
  "assign_column hist name series = hist\<lparr>extra := set_column name series (extra hist)\<rparr>"

definition columns :: "frame \<Rightarrow> string list" where
  "columns hist = [''Open'', ''High'', ''Low'', ''Close'', ''Volume''] @ map fst (extra hist)"

text \<open>\<^verbatim>\<open>len(hist)\<close> and \<^verbatim>\<open>hist.empty\<close>.\<close>

definition len :: "frame \<Rightarrow> nat" where
  "len hist = length (bars hist)"

definition empty :: "frame \<Rightarrow> bool" where
  "empty hist = (bars hist = [])"

text \<open>\<^verbatim>\<open>series.rolling(window=w).mean()\<close>: position \<open>i\<close> holds the mean of the \<open>w\<close> values that
  end at \<open>i\<close>, and \<^verbatim>\<open>NaN\<close> while fewer than \<open>w\<close> values are there.\<close>

definition rolling_mean :: "nat \<Rightarrow> real list \<Rightarrow> real option list" where
  "rolling_mean w xs =
     map (\<lambda>i. if i + 1 < w then None
              else Some (sum_list (take w (drop (i + 1 - w) xs)) / real w))
       [0..<length xs]"

section \<open>The price chart\<close>

datatype trace =
  Candlestick "timestamp list" "real list" "real list" "real list" "real list" string
| Scatter "timestamp list" "real option list" string string
| Bar "timestamp list" "int list" string "string list"

fun trace_name :: "trace \<Rightarrow> string" where
  "trace_name (Candlestick x opn hi lo cl name) = name"
| "trace_name (Scatter x y name color) = name"
| "trace_name (Bar x y name marker_color) = name"

text \<open>A figure is the list of its traces, each with the row and column of its panel.\<close>

type_synonym figure = "(trace \<times> nat \<times> nat) list"

text \<open>
  \<^verbatim>\<open>
  if len(hist) >= 20:
      hist['MA20'] = hist['Close'].rolling(window=20).mean()
      fig.add_trace(go.Scatter(x=hist.index, y=hist['MA20'], mode='lines',
                               name='20-Day MA', line=dict(color='orange', width=1)),
                    row=1, col=1)
  \<close>
  and the same with 50, \<^verbatim>\<open>MA50\<close>, \<^verbatim>\<open>50-Day MA\<close> and \<^verbatim>\<open>blue\<close>. \<^verbatim>\<open>hist\<close> is the object held
  in the session state, so the assignment changes the stored frame: the function returns the
  frame along with the figure.
\<close>

definition add_moving_average ::
  "nat \<Rightarrow> string \<Rightarrow> string \<Rightarrow> string \<Rightarrow> frame \<times> figure \<Rightarrow> frame \<times> figure" where
  "add_moving_average w column name color hf =
     (case hf of (hist, fig) \<Rightarrow>
        if len hist \<ge> w
        then (let series = rolling_mean w (map Close (bars hist));
                  hist' = assign_column hist column series
              in (hist', fig @ [(Scatter (map Date (bars hist')) series name color, 1, 1)]))
        else (hist, fig))"

text \<open>
  \<^verbatim>\<open>
  colors = ['red' if hist['Close'].iloc[i] < hist['Open'].iloc[i] else 'green'
            for i in range(len(hist))]
  \<close>
\<close>

definition colors :: "frame \<Rightarrow> string list" where
  "colors hist =
     map (\<lambda>i. if Close (bars hist ! i) < Open (bars hist ! i) then ''red'' else ''green'')
       [0..<len hist]"

definition candlestick :: "frame \<Rightarrow> trace" where
  "candlestick hist =
     Candlestick (map Date (bars hist)) (map Open (bars hist)) (map High (bars hist))
       (map Low (bars hist)) (map Close (bars hist)) ''Price''"

definition volume_bars :: "frame \<Rightarrow> trace" where
  "volume_bars hist = Bar (map Date (bars hist)) (map Volume (bars hist)) ''Volume'' (colors hist)"

definition price_chart :: "frame \<Rightarrow> frame \<times> figure" where
  "price_chart hist =
     (case add_moving_average 50 ''MA50'' ''50-Day MA'' ''blue''
             (add_moving_average 20 ''MA20'' ''20-Day MA'' ''orange''
                (hist, [(candlestick hist, 1, 1)])) of
        (hist', fig) \<Rightarrow> (hist', fig @ [(volume_bars hist', 2, 1)]))"

section \<open>The historical table and its export\<close>

text \<open>
  After \<^verbatim>\<open>reset_index\<close> the index is an ordinary column, and the script works on columns by
  name. A column is a list of cells of one type; a table is the list of its named columns,
  in column order.
\<close>

datatype column =
  DateCol "timestamp list"
| StrCol "string list"
| RealCol "real list"
| IntCol "int list"
| FloatCol "real option list"

type_synonym table = "(string \<times> column) list"

definition reset_index :: "frame \<Rightarrow> table" where
  "reset_index hist =
     [(''Date'', DateCol (map Date (bars hist))),
      (''Open'', RealCol (map Open (bars hist))),
      (''High'', RealCol (map High (bars hist))),
      (''Low'', RealCol (map Low (bars hist))),
      (''Close'', RealCol (map Close (bars hist))),
      (''Volume'', IntCol (map Volume (bars hist)))] @
     map (\<lambda>c. (fst c, FloatCol (snd c))) (extra hist)"

text \<open>\<^verbatim>\<open>t[name]\<close> raises \<^verbatim>\<open>KeyError\<close> when the table has no such column.\<close>

definition get_column :: "table \<Rightarrow> string \<Rightarrow> py_error + column" where
  "get_column t name = (case map_of t name of None \<Rightarrow> Inl KeyError | Some c \<Rightarrow> Inr c)"

text \<open>Indexing a table with a list of names: the named columns, in the order asked for, and no
  others.\<close>

definition select_columns :: "table \<Rightarrow> string list \<Rightarrow> py_error + table" where
  "select_columns t names = sequence_res (map (\<lambda>n. map_res (Pair n) (get_column t n)) names)"

text \<open>\<^verbatim>\<open>strftime('%Y-%m-%d')\<close>: the year on four digits, month and day on two. The accessor
  \<^verbatim>\<open>.dt\<close> exists on a column of dates only.\<close>

definition zero_pad :: "nat \<Rightarrow> nat \<Rightarrow> string" where
  "zero_pad w n = replicate (w - length (show_nat n)) CHR ''0'' @ show_nat n"

definition strftime :: "timestamp \<Rightarrow> string" where
  "strftime t = zero_pad 4 (year t) @ ''-'' @ zero_pad 2 (month t) @ ''-'' @ zero_pad 2 (day t)"

fun dt_strftime :: "column \<Rightarrow> py_error + column" where
  "dt_strftime (DateCol ds) = Inr (StrCol (map strftime ds))"
| "dt_strftime _ = Inl AttributeError"

text \<open>\<^verbatim>\<open>Series.round(2)\<close>: to the nearest hundredth, ties to even; integers stay as they are.\<close>

definition round2 :: "real \<Rightarrow> real" where
  "round2 x = of_int (round_half_even (x * 100)) / 100"

fun round_column :: "column \<Rightarrow> py_error + column" where
  "round_column (RealCol xs) = Inr (RealCol (map round2 xs))"
| "round_column (FloatCol xs) = Inr (FloatCol (map (map_option round2) xs))"
| "round_column (IntCol xs) = Inr (IntCol xs)"
| "round_column _ = Inl TypeError"

text \<open>\<^verbatim>\<open>Series.apply(lambda x: f"{x:,.0f}")\<close>.\<close>

fun apply_comma_0f :: "column \<Rightarrow> py_error + column" where
  "apply_comma_0f (IntCol xs) = Inr (StrCol (map (\<lambda>x. fmt_comma_0f (of_int x)) xs))"
| "apply_comma_0f (RealCol xs) = Inr (StrCol (map fmt_comma_0f xs))"
| "apply_comma_0f (FloatCol xs) =
     Inr (StrCol (map (\<lambda>x. case x of None \<Rightarrow> ''nan'' | Some v \<Rightarrow> fmt_comma_0f v) xs))"
| "apply_comma_0f (StrCol xs) = (if xs = [] then Inr (StrCol []) else Inl ValueError)"
| "apply_comma_0f (DateCol xs) = (if xs = [] then Inr (StrCol []) else Inl TypeError)"

text \<open>\<^verbatim>\<open>t.iloc[::-1].reset_index(drop=True)\<close>: the rows in reverse order.\<close>

fun reverse_column :: "column \<Rightarrow> column" where
  "reverse_column (DateCol xs) = DateCol (rev xs)"
| "reverse_column (StrCol xs) = StrCol (rev xs)"
| "reverse_column (RealCol xs) = RealCol (rev xs)"
| "reverse_column (IntCol xs) = IntCol (rev xs)"
| "reverse_column (FloatCol xs) = FloatCol (rev xs)"

definition reverse_rows :: "table \<Rightarrow> table" where
  "reverse_rows t = map (\<lambda>c. (fst c, reverse_column (snd c))) t"

text \<open>\<^verbatim>\<open>t[name] = f(t[name])\<close> for a column operation \<open>f\<close>.\<close>

definition update_column :: "(column \<Rightarrow> py_error + column) \<Rightarrow> string \<Rightarrow> table \<Rightarrow> py_error + table" where
  "update_column f name t =
     bind_res (get_column t name) (\<lambda>c. bind_res (f c) (\<lambda>c'. Inr (set_column name c' t)))"

definition display_cols :: "string list" where
  "display_cols = [''Date'', ''Open'', ''High'', ''Low'', ''Close'', ''Volume'']"

text \<open>
  \<^verbatim>\<open>
  display_hist = hist.copy()
  display_hist = display_hist.reset_index()
  display_hist['Date'] = display_hist['Date'].dt.strftime('%Y-%m-%d')
  display_cols = ['Date', 'Open', 'High', 'Low', 'Close', 'Volume']
  display_hist = display_hist[display_cols]
  for col in ['Open', 'High', 'Low', 'Close']:
      display_hist[col] = display_hist[col].round(2)
  display_hist['Volume'] = display_hist['Volume'].apply(lambda x: f"{x:,.0f}")
  display_hist = display_hist.iloc[::-1].reset_index(drop=True)
  \<close>
\<close>

fun round_loop :: "string list \<Rightarrow> table \<Rightarrow> py_error + table" where
  "round_loop [] t = Inr t"
| "round_loop (col # cols) t = bind_res (update_column round_column col t) (round_loop cols)"

definition display_hist :: "frame \<Rightarrow> py_error + table" where
  "display_hist hist =
     bind_res (update_column dt_strftime ''Date'' (reset_index hist)) (\<lambda>t1.
     bind_res (select_columns t1 display_cols) (\<lambda>t2.
     bind_res (round_loop [''Open'', ''High'', ''Low'', ''Close''] t2) (\<lambda>t3.
     bind_res (update_column apply_comma_0f ''Volume'' t3) (\<lambda>t4.
     Inr (reverse_rows t4)))))"

text \<open>
  \<^verbatim>\<open>
  csv_hist = hist.copy()
  csv_hist = csv_hist.reset_index()
  csv_hist['Date'] = csv_hist['Date'].dt.strftime('%Y-%m-%d')
  csv_hist = csv_hist[cols]
  csv_data = csv_hist.to_csv(index=False)
  \<close>
  where \<^verbatim>\<open>cols\<close> stands for the list \<^verbatim>\<open>['Date', 'Open', 'High', 'Low', 'Close', 'Volume']\<close>, which
  the script writes in place.
  \<^verbatim>\<open>to_csv(index=False)\<close> writes the column names and then one record per row, in row order;
  \<open>csv_hist\<close> is the table it is given.
\<close>

definition csv_hist :: "frame \<Rightarrow> py_error + table" where
  "csv_hist hist =
     bind_res (update_column dt_strftime ''Date'' (reset_index hist)) (\<lambda>t1.
     select_columns t1 [''Date'', ''Open'', ''High'', ''Low'', ''Close'', ''Volume''])"

text \<open>What a reader of the export gets back when the thousands separators of the on-screen
  volume are the only difference between the two tables: the exported table with its volume
  column formatted as on screen.\<close>

definition with_display_volume :: "table \<Rightarrow> py_error + table" where
  "with_display_volume t = update_column apply_comma_0f ''Volume'' t"


section \<open>Session state and the fetch\<close>

text \<open>
  \<^verbatim>\<open>st.session_state\<close> outlives a run of the script. A key of it is either not there yet
  (\<open>None\<close>), or bound to \<^verbatim>\<open>None\<close> (\<open>Some None\<close>), or bound to a value.
\<close>

record stored_state =
  stored_data :: "frame option option"
  stored_info :: "info option option"
  stored_symbol :: "string option option"

text \<open>
  \<^verbatim>\<open>
  if 'stock_data' not in st.session_state:
      st.session_state.stock_data = None
  if 'stock_info' not in st.session_state:
      st.session_state.stock_info = None
  if 'symbol' not in st.session_state:
      st.session_state.symbol = None
  \<close>
  From here on every key is there, and the script reads and writes three variables.
\<close>

record session_state =
  stock_data :: "frame option"
  stock_info :: "info option"
  symbol :: "string option"

definition init_session_state :: "stored_state \<Rightarrow> session_state" where
  "init_session_state s =
     \<lparr>stock_data = (case stored_data s of None \<Rightarrow> None | Some v \<Rightarrow> v),
      stock_info = (case stored_info s of None \<Rightarrow> None | Some v \<Rightarrow> v),
      symbol = (case stored_symbol s of None \<Rightarrow> None | Some v \<Rightarrow> v)\<rparr>"

definition keep :: "session_state \<Rightarrow> stored_state" where
  "keep st =
     \<lparr>stored_data = Some (stock_data st), stored_info = Some (stock_info st),
      stored_symbol = Some (symbol st)\<rparr>"

definition fresh :: stored_state where
  "fresh = \<lparr>stored_data = None, stored_info = None, stored_symbol = None\<rparr>"

text \<open>The sidebar: the symbol typed (already upper-cased and stripped), the period code of
  the period selected, and whether the button was pressed in this run.\<close>

record inputs =
  input_symbol :: string
  period :: string
  fetch_button :: bool

text \<open>
  The provider is the pair of calls \<^verbatim>\<open>yf.Ticker(symbol).history(period=period)\<close> and
  \<^verbatim>\<open>ticker.info\<close>: it either raises, with the text \<^verbatim>\<open>str(e)\<close> of the exception, or returns a
  history and a metadata dictionary.
  \<^verbatim>\<open>
  def get_stock_data(symbol, period):
      try:
          ticker = yf.Ticker(symbol)
          hist = ticker.history(period=period)
          info = ticker.info
          return hist, info, None
      except Exception as e:
          return None, None, str(e)
  \<close>
\<close>

datatype provider_result = Raises string | Returns "frame option" info

type_synonym provider = "string \<Rightarrow> string \<Rightarrow> provider_result"

definition get_stock_data ::
  "provider \<Rightarrow> string \<Rightarrow> string \<Rightarrow> frame option \<times> info option \<times> string option" where
  "get_stock_data prov symb per =
     (case prov symb per of
        Returns hist info \<Rightarrow> (hist, Some info, None)
      | Raises e \<Rightarrow> (None, None, Some e))"

text \<open>
  \<^verbatim>\<open>
  if fetch_button or (st.session_state.stock_data is None and symbol):
      hist, info, error = get_stock_data(symbol, period)
      if error:
          st.error(f"Error fetching data: {error}")
      elif hist is None or hist.empty:
          st.error(f"No data found for symbol '{symbol}'. Please check the symbol and try again.")
      else:
          st.session_state.stock_data = hist
          st.session_state.stock_info = info
          st.session_state.symbol = symbol
  \<close>
  The handler returns the new state, the messages given to \<^verbatim>\<open>st.error\<close>, and the calls it
  made to the provider, each with its answer.
\<close>

type_synonym provider_call = "string \<times> string \<times> provider_result"

definition error_message :: "string \<Rightarrow> string" where
  "error_message e = ''Error fetching data: '' @ e"

definition no_data_message :: "string \<Rightarrow> string" where
  "no_data_message symb =
     ''No data found for symbol '' @ [CHR 0x27] @ symb @ [CHR 0x27] @
     ''. Please check the symbol and try again.''"

definition str_truthy :: "string option \<Rightarrow> bool" where
  "str_truthy e = (case e of None \<Rightarrow> False | Some s \<Rightarrow> s \<noteq> [])"

definition none_or_empty :: "frame option \<Rightarrow> bool" where
  "none_or_empty hist = (case hist of None \<Rightarrow> True | Some h \<Rightarrow> empty h)"

definition fetch_handler ::
  "provider \<Rightarrow> inputs \<Rightarrow> session_state \<Rightarrow> session_state \<times> string list \<times> provider_call list" where
  "fetch_handler prov inp st =
     (if fetch_button inp \<or> (stock_data st = None \<and> input_symbol inp \<noteq> [])
      then (case get_stock_data prov (input_symbol inp) (period inp) of
              (hist, info, error) \<Rightarrow>
                (let calls = [(input_symbol inp, period inp, prov (input_symbol inp) (period inp))]
                 in if str_truthy error
                    then (st, [error_message (case error of None \<Rightarrow> [] | Some e \<Rightarrow> e)], calls)
                    else if none_or_empty hist
                    then (st, [no_data_message (input_symbol inp)], calls)
                    else (st\<lparr>stock_data := hist, stock_info := info,
                              symbol := Some (input_symbol inp)\<rparr>, [], calls)))
      else (st, [], []))"

section \<open>One run of the script\<close>

text \<open>
  What a run draws below the sidebar: the placeholder text when there is nothing to show,
  the dashboard, or the traceback of the exception that ended the run. The page header and
  the company information section at the end of the script are not part of the model.
\<close>

record dashboard =
  tiles :: "(string \<times> string option) \<times> string list"
  chart :: figure
  metrics_table :: "(string \<times> string) list"
  history_table :: table
  history_export :: table
  metrics_export :: "(string \<times> string) list"

datatype page = Placeholder | Crashed py_error | Shown dashboard

text \<open>The body of \<^verbatim>\<open>if st.session_state.stock_data is not None and not ... .empty\<close>. The
  moving averages are written into \<^verbatim>\<open>hist\<close>, the stored frame, when the run gets that far;
  the tables are built from the frame as it is afterwards.\<close>

definition render :: "frame \<Rightarrow> info option \<Rightarrow> frame \<times> page" where
  "render hist info_opt =
     (case info_opt of
        None \<Rightarrow> (hist, Crashed AttributeError)
      | Some info \<Rightarrow>
          (case key_metrics info of
             Inl e \<Rightarrow> (hist, Crashed e)
           | Inr ts \<Rightarrow>
               (case price_chart hist of
                  (hist', fig) \<Rightarrow>
                    (case financial_df info of
                       Inl e \<Rightarrow> (hist', Crashed e)
                     | Inr df \<Rightarrow>
                         (case display_hist hist' of
                            Inl e \<Rightarrow> (hist', Crashed e)
                          | Inr shown \<Rightarrow>
                              (case csv_hist hist' of
                                 Inl e \<Rightarrow> (hist', Crashed e)
                               | Inr csv \<Rightarrow>
                                   (hist', Shown \<lparr>tiles = ts, chart = fig, metrics_table = df,
                                      history_table = shown, history_export = csv,
                                      metrics_export = df\<rparr>)))))))"

definition run_script ::
  "provider \<Rightarrow> inputs \<Rightarrow> stored_state \<Rightarrow> stored_state \<times> string list \<times> provider_call list \<times> page" where
  "run_script prov inp s =
     (case fetch_handler prov inp (init_session_state s) of
        (st, errors, calls) \<Rightarrow>
          (case stock_data st of
             None \<Rightarrow> (keep st, errors, calls, Placeholder)
           | Some hist \<Rightarrow>
               if empty hist then (keep st, errors, calls, Placeholder)
               else (case render hist (stock_info st) of
                       (hist', pg) \<Rightarrow> (keep (st\<lparr>stock_data := Some hist'\<rparr>), errors, calls, pg))))"

text \<open>The states a session can be in: it starts with no key set, and every run of the
  script, with any input and any behaviour of the provider, leads to the next. The list is
  the record of all calls to the provider so far.\<close>

inductive reachable :: "provider_call list \<Rightarrow> stored_state \<Rightarrow> bool" where
  start: "reachable [] fresh"
| run: "reachable trail s \<Longrightarrow> run_script prov inp s = (s', errors, calls, pg) \<Longrightarrow>
        reachable (trail @ calls) s'"

text \<open>A call that the handler stores: it returned a history with at least one bar.\<close>

fun successful :: "provider_call \<Rightarrow> bool" where
  "successful (symb, per, Returns (Some hist) info) = (\<not> empty hist)"
| "successful _ = False"

text \<open>The state holds the symbol and the metadata of the call, and its history (the bars;
  the stored frame may have gained moving-average columns since).\<close>

fun holds_call :: "stored_state \<Rightarrow> provider_call \<Rightarrow> bool" where
  "holds_call s (symb, per, Returns (Some hist) info) =
     (stored_symbol s = Some (Some symb) \<and> stored_info s = Some (Some info) \<and>
      (case stored_data s of Some (Some h) \<Rightarrow> bars h = bars hist | _ \<Rightarrow> False))"
| "holds_call s _ = False"

definition fully_absent :: "stored_state \<Rightarrow> bool" where
  "fully_absent s =
     ((stored_data s = None \<or> stored_data s = Some None) \<and>
      (stored_info s = None \<or> stored_info s = Some None) \<and>
      (stored_symbol s = None \<or> stored_symbol s = Some None))"

definition consistent :: "provider_call list \<Rightarrow> stored_state \<Rightarrow> bool" where
  "consistent trail s =
     (case filter successful trail of
        [] \<Rightarrow> fully_absent s
      | c # cs \<Rightarrow> holds_call s (last (c # cs)))"


section \<open>Terms used in the statements\<close>

text \<open>The trace the script adds for a moving average of window \<open>w\<close>.\<close>

definition ma_trace :: "nat \<Rightarrow> string \<Rightarrow> string \<Rightarrow> frame \<Rightarrow> trace \<times> nat \<times> nat" where
  "ma_trace w name color hist =
     (Scatter (map Date (bars hist)) (rolling_mean w (map Close (bars hist))) name color, 1, 1)"

text \<open>The table after \<^verbatim>\<open>reset_index\<close> and \<^verbatim>\<open>strftime\<close>, before any column is selected.\<close>

definition stamped :: "frame \<Rightarrow> table" where
  "stamped hist =
     [(''Date'', StrCol (map strftime (map Date (bars hist)))),
      (''Open'', RealCol (map Open (bars hist))),
      (''High'', RealCol (map High (bars hist))),
      (''Low'', RealCol (map Low (bars hist))),
      (''Close'', RealCol (map Close (bars hist))),
      (''Volume'', IntCol (map Volume (bars hist)))] @
     map (\<lambda>c. (fst c, FloatCol (snd c))) (extra hist)"

text \<open>A bar, a dictionary and histories for the examples.\<close>

definition bar0 :: bar where
  "bar0 = \<lparr>Date = \<lparr>year = 2024, month = 1, day = 2\<rparr>,
           Open = 10, High = 12, Low = 9, Close = 11, Volume = 1000\<rparr>"

definition hist2 :: frame where
  "hist2 = \<lparr>bars = [bar0\<lparr>Open := 0.125\<rparr>,
                     bar0\<lparr>Date := \<lparr>year = 2024, month = 1, day = 3\<rparr>\<rparr>],
            extra = []\<rparr>"

text \<open>Dictionaries for the examples.\<close>

definition info_none_price :: info where
  "info_none_price = map_of [(''currentPrice'', PyNone), (''regularMarketPrice'', PyNum 150)]"

definition info_zeros :: info where
  "info_zeros = map_of [(''trailingPE'', PyNum 0), (''dividendYield'', PyNum 0), (''beta'', PyNum 0),
     (''volume'', PyNum 0), (''marketCap'', PyNum 0), (''totalRevenue'', PyNum 0)]"



text \<open>Whether a run calls the provider, the call it then makes, and the state a stored
  fetch leaves.\<close>

definition attempts :: "inputs \<Rightarrow> session_state \<Rightarrow> bool" where
  "attempts inp st = (fetch_button inp \<or> (stock_data st = None \<and> input_symbol inp \<noteq> []))"

definition the_call :: "provider \<Rightarrow> inputs \<Rightarrow> provider_call" where
  "the_call prov inp = (input_symbol inp, period inp, prov (input_symbol inp) (period inp))"

definition stored :: "inputs \<Rightarrow> frame \<Rightarrow> info \<Rightarrow> session_state" where
  "stored inp hist info =
     \<lparr>stock_data = Some hist, stock_info = Some info, symbol = Some (input_symbol inp)\<rparr>"

text \<open>An input and three providers for the examples.\<close>

definition inp0 :: inputs where
  "inp0 = \<lparr>input_symbol = ''AAPL'', period = ''1y'', fetch_button = False\<rparr>"

definition prov_ok :: provider where
  "prov_ok symb per = Returns (Some hist2) Map.empty"





section \<open>Properties of the formatters\<close>

lemmas fmt_eval =
  fmt_2f_def fmt_plus_2f_def fmt_comma_0f_def fixed2_def sign_str_def plus_sign_str_def
  round_half_even_def show_nat.simps show_grouped.simps digit_char_def Let_def










section \<open>Properties of the historical tables\<close>

lemma get_column_reset_index:
  "get_column (reset_index hist) ''Date'' = Inr (DateCol (map Date (bars hist)))"
  by (simp add: get_column_def reset_index_def)

lemma stamp_reset_index:
  "update_column dt_strftime ''Date'' (reset_index hist) = Inr (stamped hist)"
  by (simp add: update_column_def get_column_def reset_index_def bind_res_def stamped_def)

lemma select_stamped:
  "select_columns (stamped hist) [''Date'', ''Open'', ''High'', ''Low'', ''Close'', ''Volume''] =
     Inr [(''Date'', StrCol (map strftime (map Date (bars hist)))),
      (''Open'', RealCol (map Open (bars hist))),
      (''High'', RealCol (map High (bars hist))),
      (''Low'', RealCol (map Low (bars hist))),
      (''Close'', RealCol (map Close (bars hist))),
      (''Volume'', IntCol (map Volume (bars hist)))]"
  by (simp add: select_columns_def get_column_def stamped_def map_res_def)

lemma csv_hist_eq:
  "csv_hist hist =
     Inr [(''Date'', StrCol (map strftime (map Date (bars hist)))),
      (''Open'', RealCol (map Open (bars hist))),
      (''High'', RealCol (map High (bars hist))),
      (''Low'', RealCol (map Low (bars hist))),
      (''Close'', RealCol (map Close (bars hist))),
      (''Volume'', IntCol (map Volume (bars hist)))]"
  by (simp add: csv_hist_def stamp_reset_index select_stamped bind_res_def)

lemma display_hist_eq:
  "display_hist hist =
     Inr [(''Date'', StrCol (rev (map strftime (map Date (bars hist))))),
      (''Open'', RealCol (rev (map round2 (map Open (bars hist))))),
      (''High'', RealCol (rev (map round2 (map High (bars hist))))),
      (''Low'', RealCol (rev (map round2 (map Low (bars hist))))),
      (''Close'', RealCol (rev (map round2 (map Close (bars hist))))),
      (''Volume'', StrCol (rev (map (\<lambda>x. fmt_comma_0f (of_int x)) (map Volume (bars hist)))))]"
proof -
  have "display_hist hist =
     bind_res (round_loop [''Open'', ''High'', ''Low'', ''Close'']
        [(''Date'', StrCol (map strftime (map Date (bars hist)))),
      (''Open'', RealCol (map Open (bars hist))),
      (''High'', RealCol (map High (bars hist))),
      (''Low'', RealCol (map Low (bars hist))),
      (''Close'', RealCol (map Close (bars hist))),
      (''Volume'', IntCol (map Volume (bars hist)))]) (\<lambda>t3.
     bind_res (update_column apply_comma_0f ''Volume'' t3) (\<lambda>t4.
     Inr (reverse_rows t4)))"
    by (simp add: display_hist_def display_cols_def stamp_reset_index select_stamped bind_res_def)
  then show ?thesis
    by (simp add: bind_res_def update_column_def get_column_def reverse_rows_def)
qed

lemma display_hist_bars: "bars h = bars h' \<Longrightarrow> display_hist h = display_hist h'"
  by (simp add: display_hist_eq)

lemma csv_hist_bars: "bars h = bars h' \<Longrightarrow> csv_hist h = csv_hist h'"
  by (simp add: csv_hist_eq)

section \<open>Properties of the chart\<close>

lemma map_of_set_column:
  "map_of (set_column name v cs) k = (if k = name then Some v else map_of cs k)"
  by (induction cs) auto

lemma set_column_names:
  "set (map fst (set_column name v cs)) = insert name (set (map fst cs))"
  by (induction cs) auto

lemma bars_assign_column: "bars (assign_column hist name series) = bars hist"
  by (simp add: assign_column_def)

lemma len_assign_column: "len (assign_column hist name series) = len hist"
  by (simp add: len_def bars_assign_column)

lemma colors_map:
  "colors hist = map (\<lambda>b. if Close b < Open b then ''red'' else ''green'') (bars hist)"
  unfolding colors_def len_def by (rule nth_equalityI) simp_all

lemma volume_bars_assign: "volume_bars (assign_column hist name series) = volume_bars hist"
  by (simp add: volume_bars_def colors_map bars_assign_column)

lemma price_chart_fig:
  "snd (price_chart hist) =
     [(candlestick hist, 1, 1)] @
     (if 20 \<le> len hist then [ma_trace 20 ''20-Day MA'' ''orange'' hist] else []) @
     (if 50 \<le> len hist then [ma_trace 50 ''50-Day MA'' ''blue'' hist] else []) @
     [(volume_bars hist, 2, 1)]"
  by (simp add: price_chart_def add_moving_average_def Let_def len_assign_column
      bars_assign_column volume_bars_assign ma_trace_def split: prod.splits)

lemma price_chart_frame:
  "fst (price_chart hist) =
     (let h1 = (if 20 \<le> len hist
                then assign_column hist ''MA20'' (rolling_mean 20 (map Close (bars hist)))
                else hist)
      in if 50 \<le> len hist
         then assign_column h1 ''MA50'' (rolling_mean 50 (map Close (bars hist)))
         else h1)"
  by (simp add: price_chart_def add_moving_average_def Let_def len_assign_column
      bars_assign_column split: prod.splits)

lemma bars_price_chart: "bars (fst (price_chart hist)) = bars hist"
  by (simp add: price_chart_frame Let_def bars_assign_column)

lemma trace_names:
  "map (\<lambda>t. trace_name (fst t)) (snd (price_chart hist)) =
     [''Price''] @ (if 20 \<le> len hist then [''20-Day MA''] else []) @
     (if 50 \<le> len hist then [''50-Day MA''] else []) @ [''Volume'']"
  by (simp add: price_chart_fig candlestick_def volume_bars_def ma_trace_def)

lemma rolling_mean_nth:
  "i < length xs \<Longrightarrow>
   rolling_mean w xs ! i =
     (if i + 1 < w then None else Some (sum_list (take w (drop (i + 1 - w) xs)) / real w))"
  by (simp add: rolling_mean_def)

lemma ma_column:
  "map_of (extra (fst (price_chart hist))) ''MA20'' =
     (if 20 \<le> len hist then Some (rolling_mean 20 (map Close (bars hist)))
      else map_of (extra hist) ''MA20'')"
  "map_of (extra (fst (price_chart hist))) ''MA50'' =
     (if 50 \<le> len hist then Some (rolling_mean 50 (map Close (bars hist)))
      else map_of (extra hist) ''MA50'')"
  by (simp_all add: price_chart_frame Let_def assign_column_def map_of_set_column)

lemma columns_price_chart:
  "(20 \<le> len hist \<longrightarrow> ''MA20'' \<in> set (columns (fst (price_chart hist)))) \<and>
   (50 \<le> len hist \<longrightarrow> ''MA50'' \<in> set (columns (fst (price_chart hist))))"
  by (simp add: columns_def price_chart_frame Let_def assign_column_def set_column_names
      del: set_map)

lemma render_Shown:
  assumes "render hist (Some info) = (h', Shown d)"
  shows "h' = fst (price_chart hist) \<and> Inr (history_table d) = display_hist hist \<and>
         Inr (history_export d) = csv_hist hist \<and> chart d = snd (price_chart hist)"
proof -
  obtain h1 fig where pc: "price_chart hist = (h1, fig)" by (cases "price_chart hist")
  then have b: "bars h1 = bars hist" using bars_price_chart [of hist] by simp
  from assms pc have "h' = h1 \<and> Inr (history_table d) = display_hist h1 \<and>
      Inr (history_export d) = csv_hist h1 \<and> chart d = fig"
    by (auto simp: render_def split: sum.splits)
  with pc b show ?thesis
    using display_hist_bars [OF b] csv_hist_bars [OF b] by simp
qed

text \<open>
  C4. For each of the windows 20 and 50, the script adds the moving-average trace to the
  chart, and the moving-average column to the history, exactly when the history has at least
  that many bars; the series is the rolling mean of the closing prices. With fewer bars there
  is no such trace, and the columns of the history are as they were.
\<close>

theorem moving_average_presence:
  "(ma_trace 20 ''20-Day MA'' ''orange'' hist \<in> set (snd (price_chart hist)) \<longleftrightarrow> 20 \<le> len hist) \<and>
   (ma_trace 50 ''50-Day MA'' ''blue'' hist \<in> set (snd (price_chart hist)) \<longleftrightarrow> 50 \<le> len hist) \<and>
   (''20-Day MA'' \<in> set (map (\<lambda>t. trace_name (fst t)) (snd (price_chart hist))) \<longleftrightarrow> 20 \<le> len hist) \<and>
   (''50-Day MA'' \<in> set (map (\<lambda>t. trace_name (fst t)) (snd (price_chart hist))) \<longleftrightarrow> 50 \<le> len hist) \<and>
   (20 \<le> len hist \<longrightarrow>
      map_of (extra (fst (price_chart hist))) ''MA20'' = Some (rolling_mean 20 (map Close (bars hist)))) \<and>
   (50 \<le> len hist \<longrightarrow>
      map_of (extra (fst (price_chart hist))) ''MA50'' = Some (rolling_mean 50 (map Close (bars hist)))) \<and>
   (len hist < 20 \<longrightarrow> extra (fst (price_chart hist)) = extra hist) \<and>
   (len hist < 50 \<longrightarrow>
      map_of (extra (fst (price_chart hist))) ''MA50'' = map_of (extra hist) ''MA50'') \<and>
   length (rolling_mean w xs) = length xs \<and>
   (\<forall>i<length xs. rolling_mean w xs ! i =
      (if i + 1 < w then None else Some (sum_list (take w (drop (i + 1 - w) xs)) / real w)))"
proof -
  have a: "ma_trace 20 ''20-Day MA'' ''orange'' hist \<in> set (snd (price_chart hist)) \<longleftrightarrow> 20 \<le> len hist"
    by (simp add: price_chart_fig ma_trace_def candlestick_def volume_bars_def)
  have b: "ma_trace 50 ''50-Day MA'' ''blue'' hist \<in> set (snd (price_chart hist)) \<longleftrightarrow> 50 \<le> len hist"
    by (simp add: price_chart_fig ma_trace_def candlestick_def volume_bars_def)
  have c: "''20-Day MA'' \<in> set (map (\<lambda>t. trace_name (fst t)) (snd (price_chart hist))) \<longleftrightarrow> 20 \<le> len hist"
    unfolding trace_names by simp
  have d: "''50-Day MA'' \<in> set (map (\<lambda>t. trace_name (fst t)) (snd (price_chart hist))) \<longleftrightarrow> 50 \<le> len hist"
    unfolding trace_names by simp
  have e: "len hist < 20 \<longrightarrow> extra (fst (price_chart hist)) = extra hist"
    by (simp add: price_chart_frame Let_def)
  have f: "length (rolling_mean w xs) = length xs"
    by (simp add: rolling_mean_def)
  from a b c d e f show ?thesis
    by (simp add: ma_column rolling_mean_nth)
qed

theorem moving_average_presence_witness:
  "20 \<le> len \<lparr>bars = replicate 20 bar0, extra = []\<rparr> \<and>
   len \<lparr>bars = replicate 20 bar0, extra = []\<rparr> < 50 \<and>
   ''20-Day MA'' \<in> set (map (\<lambda>t. trace_name (fst t)) (snd (price_chart \<lparr>bars = replicate 20 bar0, extra = []\<rparr>))) \<and>
   ''50-Day MA'' \<notin> set (map (\<lambda>t. trace_name (fst t)) (snd (price_chart \<lparr>bars = replicate 20 bar0, extra = []\<rparr>))) \<and>
   map_of (extra (fst (price_chart \<lparr>bars = replicate 20 bar0, extra = []\<rparr>))) ''MA20'' =
     Some (rolling_mean 20 (replicate 20 11)) \<and>
   map_of (extra (fst (price_chart \<lparr>bars = replicate 20 bar0, extra = []\<rparr>))) ''MA50'' = None \<and>
   len \<lparr>bars = replicate 19 bar0, extra = []\<rparr> < 20 \<and>
   extra (fst (price_chart \<lparr>bars = replicate 19 bar0, extra = []\<rparr>)) = [] \<and>
   (1::nat) < length [1, 2, 4 :: real] \<and> rolling_mean 2 [1, 2, 4] ! 1 = Some (3 / 2)"
  using moving_average_presence [of "\<lparr>bars = replicate 20 bar0, extra = []\<rparr>" 2 "[1, 2, 4]"]
    moving_average_presence [of "\<lparr>bars = replicate 19 bar0, extra = []\<rparr>" 2 "[1, 2, 4]"]
  by (simp add: len_def bar0_def)




section \<open>The script on an empty dictionary\<close>

lemmas row_defs = dollar_row2_def dollar_row_def plain_row_def percent_row_def comma_row2_def
  comma_row_def large_row_def

lemmas tile_defs = price_tile_def price_value_def price_delta_def price_change_pct_def
  price_change_def current_price_def previous_close_def market_cap_tile_def pe_ratio_tile_def
  dividend_yield_tile_def volume_tile_def key_metrics_def

lemma key_metrics_empty:
  "key_metrics Map.empty = Inr ((''N/A'', None), [''N/A'', ''N/A'', ''N/A'', ''N/A''])"
  by (simp add: tile_defs get_def get_default_def py_or_def py_and_def bind_res_def map_res_def)

lemma financial_values_empty: "financial_values Map.empty = Inr (replicate 23 ''N/A'')"
  by (simp add: financial_values_def financial_rows_def row_defs get_def py_or_def
      eval_nat_numeral)

lemma render_empty_info:
  "\<exists>d. render hist (Some Map.empty) = (fst (price_chart hist), Shown d)"
  by (simp add: render_def key_metrics_empty financial_df_def financial_values_empty map_res_def
      display_hist_eq csv_hist_eq split: prod.splits)


section \<open>The export and the table on screen\<close>

lemma csv_ex:
  "csv_hist hist2 = Inr
     [(''Date'', StrCol [''2024-01-02'', ''2024-01-03'']),
      (''Open'', RealCol [0.125, 10]), (''High'', RealCol [12, 12]),
      (''Low'', RealCol [9, 9]), (''Close'', RealCol [11, 11]),
      (''Volume'', IntCol [1000, 1000])]"
  by (simp add: csv_hist_eq hist2_def bar0_def strftime_def zero_pad_def show_nat.simps digit_char_def)

lemma disp_ex:
  "display_hist hist2 = Inr
     [(''Date'', StrCol [''2024-01-03'', ''2024-01-02'']),
      (''Open'', RealCol [10, 0.12]), (''High'', RealCol [12, 12]),
      (''Low'', RealCol [9, 9]), (''Close'', RealCol [11, 11]),
      (''Volume'', StrCol [''1,000'', ''1,000''])]"
  by (simp add: display_hist_eq hist2_def bar0_def strftime_def zero_pad_def round2_def fmt_eval)

text \<open>
  C2, as stated, fails. For the history \<open>hist2\<close> of two bars, the first with an opening price
  of 0.125, the exported table lists the bars oldest first with the price 0.125, and the
  table on screen lists them newest first with the price 0.12: the export with its volume
  formatted as on screen is not the table on screen.
\<close>

theorem export_differs_from_screen:
  "csv_hist hist2 = Inr
     [(''Date'', StrCol [''2024-01-02'', ''2024-01-03'']),
      (''Open'', RealCol [0.125, 10]), (''High'', RealCol [12, 12]),
      (''Low'', RealCol [9, 9]), (''Close'', RealCol [11, 11]),
      (''Volume'', IntCol [1000, 1000])] \<and>
   display_hist hist2 = Inr
     [(''Date'', StrCol [''2024-01-03'', ''2024-01-02'']),
      (''Open'', RealCol [10, 0.12]), (''High'', RealCol [12, 12]),
      (''Low'', RealCol [9, 9]), (''Close'', RealCol [11, 11]),
      (''Volume'', StrCol [''1,000'', ''1,000''])] \<and>
   bind_res (csv_hist hist2) with_display_volume \<noteq> display_hist hist2"
  unfolding csv_ex disp_ex
  by (simp add: bind_res_def with_display_volume_def update_column_def get_column_def)

text \<open>
  C2, amended. Both tables are built from the stored history, each by its own steps. The
  export has the six columns with the dates as text, the prices as fetched and the volume as
  a number, oldest bar first. The table on screen is the export with the four price columns
  rounded to two decimals, the volume printed with thousands separators, and the rows in
  reverse order.
\<close>

theorem export_and_screen:
  "csv_hist hist = Inr
     [(''Date'', StrCol (map (\<lambda>b. strftime (Date b)) (bars hist))),
      (''Open'', RealCol (map Open (bars hist))),
      (''High'', RealCol (map High (bars hist))),
      (''Low'', RealCol (map Low (bars hist))),
      (''Close'', RealCol (map Close (bars hist))),
      (''Volume'', IntCol (map Volume (bars hist)))] \<and>
   display_hist hist = Inr
     [(''Date'', StrCol (rev (map (\<lambda>b. strftime (Date b)) (bars hist)))),
      (''Open'', RealCol (rev (map (\<lambda>b. round2 (Open b)) (bars hist)))),
      (''High'', RealCol (rev (map (\<lambda>b. round2 (High b)) (bars hist)))),
      (''Low'', RealCol (rev (map (\<lambda>b. round2 (Low b)) (bars hist)))),
      (''Close'', RealCol (rev (map (\<lambda>b. round2 (Close b)) (bars hist)))),
      (''Volume'', StrCol (rev (map (\<lambda>b. fmt_comma_0f (of_int (Volume b))) (bars hist))))] \<and>
   display_hist hist =
     bind_res (csv_hist hist) (\<lambda>t.
     bind_res (round_loop [''Open'', ''High'', ''Low'', ''Close''] t) (\<lambda>t'.
     bind_res (with_display_volume t') (\<lambda>t''. Inr (reverse_rows t''))))"
proof -
  have a: "display_hist hist =
     bind_res (csv_hist hist) (\<lambda>t.
     bind_res (round_loop [''Open'', ''High'', ''Low'', ''Close''] t) (\<lambda>t'.
     bind_res (with_display_volume t') (\<lambda>t''. Inr (reverse_rows t''))))"
    by (simp add: display_hist_def csv_hist_def with_display_volume_def display_cols_def
        bind_res_def split: sum.splits)
  show ?thesis
    using a by (simp add: csv_hist_eq display_hist_eq comp_def)
qed

text \<open>
  C10. The chart step writes the columns \<^verbatim>\<open>MA20\<close> and \<^verbatim>\<open>MA50\<close> into the history (when it has
  20, respectively 50, bars) and leaves its bars alone. The table on screen and the export
  have exactly the columns \<^verbatim>\<open>Date\<close>, \<^verbatim>\<open>Open\<close>, \<^verbatim>\<open>High\<close>, \<^verbatim>\<open>Low\<close>, \<^verbatim>\<open>Close\<close>, \<^verbatim>\<open>Volume\<close>, and are
  the same whether they are built from the history before or after that step; a run that
  draws the dashboard shows and exports the tables of the history as it was fetched.
\<close>

theorem moving_averages_not_exported:
  "(20 \<le> len hist \<longrightarrow> ''MA20'' \<in> set (columns (fst (price_chart hist)))) \<and>
   (50 \<le> len hist \<longrightarrow> ''MA50'' \<in> set (columns (fst (price_chart hist)))) \<and>
   bars (fst (price_chart hist)) = bars hist \<and>
   display_hist (fst (price_chart hist)) = display_hist hist \<and>
   csv_hist (fst (price_chart hist)) = csv_hist hist \<and>
   (\<exists>t. display_hist (fst (price_chart hist)) = Inr t \<and>
        map fst t = [''Date'', ''Open'', ''High'', ''Low'', ''Close'', ''Volume'']) \<and>
   (\<exists>t. csv_hist (fst (price_chart hist)) = Inr t \<and>
        map fst t = [''Date'', ''Open'', ''High'', ''Low'', ''Close'', ''Volume'']) \<and>
   (\<forall>info h' d. render hist (Some info) = (h', Shown d) \<longrightarrow>
      h' = fst (price_chart hist) \<and> Inr (history_table d) = display_hist hist \<and>
      Inr (history_export d) = csv_hist hist)"
proof -
  have b: "bars (fst (price_chart hist)) = bars hist" by (rule bars_price_chart)
  have d: "\<exists>t. display_hist (fst (price_chart hist)) = Inr t \<and>
        map fst t = [''Date'', ''Open'', ''High'', ''Low'', ''Close'', ''Volume'']"
    by (simp add: display_hist_eq)
  have c: "\<exists>t. csv_hist (fst (price_chart hist)) = Inr t \<and>
        map fst t = [''Date'', ''Open'', ''High'', ''Low'', ''Close'', ''Volume'']"
    by (simp add: csv_hist_eq)
  have r: "\<forall>info h' d. render hist (Some info) = (h', Shown d) \<longrightarrow>
      h' = fst (price_chart hist) \<and> Inr (history_table d) = display_hist hist \<and>
      Inr (history_export d) = csv_hist hist"
    using render_Shown by blast
  from columns_price_chart [of hist] b display_hist_bars [OF b] csv_hist_bars [OF b] d c r
  show ?thesis by blast
qed

theorem moving_averages_not_exported_witness:
  "20 \<le> len \<lparr>bars = replicate 50 bar0, extra = []\<rparr> \<and>
   50 \<le> len \<lparr>bars = replicate 50 bar0, extra = []\<rparr> \<and>
   ''MA20'' \<in> set (columns (fst (price_chart \<lparr>bars = replicate 50 bar0, extra = []\<rparr>))) \<and>
   ''MA50'' \<in> set (columns (fst (price_chart \<lparr>bars = replicate 50 bar0, extra = []\<rparr>))) \<and>
   (case render hist2 (Some Map.empty) of
      (h', Shown d) \<Rightarrow>
        h' = fst (price_chart hist2) \<and> Inr (history_table d) = display_hist hist2 \<and>
        Inr (history_export d) = csv_hist hist2
    | _ \<Rightarrow> False)"
proof -
  obtain d where d: "render hist2 (Some Map.empty) = (fst (price_chart hist2), Shown d)"
    using render_empty_info by blast
  have l: "len \<lparr>bars = replicate 50 bar0, extra = []\<rparr> = 50"
    by (simp add: len_def)
  have m20: "''MA20'' \<in> set (columns (fst (price_chart \<lparr>bars = replicate 50 bar0, extra = []\<rparr>)))"
    using moving_averages_not_exported [of "\<lparr>bars = replicate 50 bar0, extra = []\<rparr>", THEN conjunct1] l
    by simp
  have m50: "''MA50'' \<in> set (columns (fst (price_chart \<lparr>bars = replicate 50 bar0, extra = []\<rparr>)))"
    using moving_averages_not_exported [of "\<lparr>bars = replicate 50 bar0, extra = []\<rparr>",
        THEN conjunct2, THEN conjunct1] l
    by simp
  have r: "Inr (history_table d) = display_hist hist2 \<and> Inr (history_export d) = csv_hist hist2"
    using moving_averages_not_exported [of hist2] d by blast
  show ?thesis
    using l m20 m50 r by (simp add: d)
qed


section \<open>Properties of the metrics table and the tiles\<close>

lemma falsy_shapes:
  "\<not> truthy (get info k) \<Longrightarrow> dollar_row info k = Inr ''N/A''"
  "\<not> truthy (get info k) \<Longrightarrow> plain_row info k = Inr ''N/A''"
  "\<not> truthy (get info k) \<Longrightarrow> percent_row info k = Inr ''N/A''"
  "\<not> truthy (get info k) \<Longrightarrow> comma_row info k = Inr ''N/A''"
  "\<not> truthy (get info k1) \<Longrightarrow> \<not> truthy (get info k2) \<Longrightarrow> dollar_row2 info k1 k2 = Inr ''N/A''"
  "\<not> truthy (get info k1) \<Longrightarrow> \<not> truthy (get info k2) \<Longrightarrow> comma_row2 info k1 k2 = Inr ''N/A''"
  by (simp_all add: row_defs py_or_def)

lemma large_row_cases:
  "get info k = PyNone \<Longrightarrow> large_row info k = Inr ''N/A''"
  "get info k = PyNaN \<Longrightarrow> large_row info k = Inr ''N/A''"
  "get info k = PyNum 0 \<Longrightarrow> large_row info k = Inr ''$0.00''"
  by (simp_all add: large_row_def fmt_eval)

lemma row_keys_cases:
  assumes "(i, ks) \<in> set row_keys"
  shows "(i, ks) \<in> {(0, [''currentPrice'', ''regularMarketPrice'']), (1, [''previousClose'']),
      (2, [''open'', ''regularMarketOpen'']), (3, [''dayHigh'', ''regularMarketDayHigh'']),
      (4, [''dayLow'', ''regularMarketDayLow'']), (5, [''fiftyTwoWeekHigh'']),
      (6, [''fiftyTwoWeekLow'']), (7, [''marketCap'']), (8, [''trailingPE'']),
      (9, [''forwardPE'']), (10, [''pegRatio'']), (11, [''priceToBook'']),
      (12, [''trailingEps'']), (13, [''dividendYield'']), (14, [''dividendRate'']),
      (15, [''beta'']), (16, [''volume'', ''regularMarketVolume'']), (17, [''averageVolume'']),
      (18, [''totalRevenue'']), (19, [''profitMargins'']), (20, [''operatingMargins'']),
      (21, [''returnOnEquity'']), (22, [''returnOnAssets''])}"
  using assms unfolding row_keys_def by (simp only: set_simps)

lemma falsy_row:
  assumes "i \<in> set truthiness_rows" "(i, ks) \<in> set row_keys"
    "\<forall>k\<in>set ks. \<not> truthy (get info k)"
  shows "financial_rows info ! i = Inr ''N/A''"
  using row_keys_cases [OF assms(2)] assms(1,3)
  apply (simp only: insert_iff empty_iff Pair_inject HOL.simp_thms)
  apply (elim disjE conjE)
  apply (simp_all add: financial_rows_def falsy_shapes truthiness_rows_def)
  done

lemma zero_magnitude_row:
  assumes "i \<in> set magnitude_rows" "(i, ks) \<in> set row_keys"
    "\<forall>k\<in>set ks. info k = Some (PyNum 0)"
  shows "financial_rows info ! i = Inr ''$0.00''"
  using row_keys_cases [OF assms(2)] assms(1,3)
  apply (simp only: insert_iff empty_iff Pair_inject HOL.simp_thms)
  apply (elim disjE conjE)
  apply (simp_all add: financial_rows_def large_row_cases magnitude_rows_def get_def)
  done

text \<open>A row all of whose keys are missing, or bound to \<^verbatim>\<open>None\<close>, shows \<^verbatim>\<open>N/A\<close>.\<close>

lemma missing_row:
  assumes "(i, ks) \<in> set row_keys" "\<forall>k\<in>set ks. info k = None \<or> info k = Some PyNone"
  shows "financial_rows info ! i = Inr ''N/A''"
proof -
  have g: "\<forall>k\<in>set ks. get info k = PyNone"
    using assms(2) by (auto simp: get_def)
  then have f: "\<forall>k\<in>set ks. \<not> truthy (get info k)" by simp
  show ?thesis
  proof (cases "i \<in> set truthiness_rows")
    case True
    then show ?thesis using falsy_row [OF True assms(1) f] by simp
  next
    case False
    with row_keys_cases [OF assms(1)] g show ?thesis
      apply (simp only: insert_iff empty_iff Pair_inject HOL.simp_thms)
      apply (elim disjE conjE)
      apply (simp_all add: financial_rows_def large_row_cases truthiness_rows_def)
      done
  qed
qed

text \<open>
  C1. Building the \<^verbatim>\<open>Value\<close> column is not total. For the dictionary \<open>info_none_price\<close>, where
  \<^verbatim>\<open>currentPrice\<close> is bound to \<^verbatim>\<open>None\<close> and \<^verbatim>\<open>regularMarketPrice\<close> to 150, the guard of the first
  row holds through the second key, the value printed is that of the first key, and
  formatting \<^verbatim>\<open>None\<close> raises \<^verbatim>\<open>TypeError\<close>: the run ends without a table. The tile above the
  chart reads the same two keys with \<^verbatim>\<open>or\<close> and shows \<^verbatim>\<open>$150.00\<close>.
\<close>

theorem value_column_raises:
  "financial_values info_none_price = Inl TypeError \<and>
   financial_rows info_none_price ! 0 = Inl TypeError \<and>
   price_value info_none_price = Inr ''$150.00''"
  by (simp add: financial_values_def financial_rows_def row_defs info_none_price_def
      price_value_def current_price_def get_def get_default_def py_or_def map_res_def fmt_eval)

text \<open>
  C9, as stated, fails. With \<^verbatim>\<open>marketCap\<close> and \<^verbatim>\<open>totalRevenue\<close> bound to 0, the rows
  \<^verbatim>\<open>Market Cap\<close> and \<^verbatim>\<open>Revenue\<close> and the tile \<^verbatim>\<open>Market Cap\<close> show \<^verbatim>\<open>$0.00\<close>, not \<^verbatim>\<open>N/A\<close>: the magnitude
  formatter tests for \<^verbatim>\<open>None\<close> and \<^verbatim>\<open>NaN\<close>, not for truth.
\<close>

theorem zero_market_cap_formatted:
  "financial_rows info_zeros ! 7 = Inr ''$0.00'' \<and>
   financial_rows info_zeros ! 18 = Inr ''$0.00'' \<and>
   market_cap_tile info_zeros = Inr ''$0.00'' \<and>
   financial_rows info_zeros ! 7 \<noteq> Inr ''N/A'' \<and>
   market_cap_tile info_zeros \<noteq> Inr ''N/A''"
  by (simp add: financial_rows_def row_defs info_zeros_def market_cap_tile_def get_def fmt_eval)

text \<open>
  C9, amended. A row of the table whose guard is the truth value of its keys shows \<^verbatim>\<open>N/A\<close>
  when each key it reads is 0 (or \<^verbatim>\<open>None\<close>, or missing); so do the tiles \<^verbatim>\<open>P/E Ratio\<close>,
  \<^verbatim>\<open>Dividend Yield\<close>, \<^verbatim>\<open>Volume\<close> and \<^verbatim>\<open>Current Price\<close>. The rows \<^verbatim>\<open>Market Cap\<close> and \<^verbatim>\<open>Revenue\<close> and
  the tile \<^verbatim>\<open>Market Cap\<close> go through the magnitude formatter and show a 0 as \<^verbatim>\<open>$0.00\<close>.
\<close>

theorem zero_renders:
  "(i \<in> set truthiness_rows \<and> (i, ks) \<in> set row_keys \<and> (\<forall>k\<in>set ks. \<not> truthy (get info k)) \<longrightarrow>
      financial_rows info ! i = Inr ''N/A'') \<and>
   (\<not> truthy (get info ''trailingPE'') \<longrightarrow> pe_ratio_tile info = Inr ''N/A'') \<and>
   (\<not> truthy (get info ''dividendYield'') \<longrightarrow> dividend_yield_tile info = Inr ''N/A'') \<and>
   (\<not> truthy (get info ''volume'') \<and> \<not> truthy (get info ''regularMarketVolume'') \<longrightarrow>
      volume_tile info = Inr ''N/A'') \<and>
   (\<not> truthy (get info ''currentPrice'') \<and> \<not> truthy (get info ''regularMarketPrice'') \<longrightarrow>
      price_value info = Inr ''N/A'') \<and>
   (i \<in> set magnitude_rows \<and> (i, ks) \<in> set row_keys \<and> (\<forall>k\<in>set ks. info k = Some (PyNum 0)) \<longrightarrow>
      financial_rows info ! i = Inr ''$0.00'') \<and>
   (info ''marketCap'' = Some (PyNum 0) \<longrightarrow> market_cap_tile info = Inr ''$0.00'') \<and>
   (info k = Some (PyNum 0) \<or> info k = Some PyNone \<or> info k = None \<longrightarrow> \<not> truthy (get info k))"
proof -
  have a: "i \<in> set truthiness_rows \<and> (i, ks) \<in> set row_keys \<and> (\<forall>k\<in>set ks. \<not> truthy (get info k)) \<longrightarrow>
      financial_rows info ! i = Inr ''N/A''"
    using falsy_row by blast
  have b: "i \<in> set magnitude_rows \<and> (i, ks) \<in> set row_keys \<and> (\<forall>k\<in>set ks. info k = Some (PyNum 0)) \<longrightarrow>
      financial_rows info ! i = Inr ''$0.00''"
    using zero_magnitude_row by blast
  have c: "\<not> truthy (get info ''trailingPE'') \<longrightarrow> pe_ratio_tile info = Inr ''N/A''"
    by (simp add: pe_ratio_tile_def)
  have d: "\<not> truthy (get info ''dividendYield'') \<longrightarrow> dividend_yield_tile info = Inr ''N/A''"
    by (simp add: dividend_yield_tile_def)
  have e: "\<not> truthy (get info ''volume'') \<and> \<not> truthy (get info ''regularMarketVolume'') \<longrightarrow>
      volume_tile info = Inr ''N/A''"
    by (simp add: volume_tile_def py_or_def)
  have f: "\<not> truthy (get info ''currentPrice'') \<and> \<not> truthy (get info ''regularMarketPrice'') \<longrightarrow>
      price_value info = Inr ''N/A''"
    by (auto simp: price_value_def current_price_def py_or_def get_def get_default_def
        split: option.splits)
  have g: "info ''marketCap'' = Some (PyNum 0) \<longrightarrow> market_cap_tile info = Inr ''$0.00''"
    by (simp add: market_cap_tile_def get_def fmt_eval)
  have h: "info k = Some (PyNum 0) \<or> info k = Some PyNone \<or> info k = None \<longrightarrow> \<not> truthy (get info k)"
    by (auto simp: get_def)
  from a b c d e f g h show ?thesis by blast
qed

theorem zero_renders_witness:
  "8 \<in> set truthiness_rows \<and> (8, [''trailingPE'']) \<in> set row_keys \<and>
   \<not> truthy (get info_zeros ''trailingPE'') \<and> financial_rows info_zeros ! 8 = Inr ''N/A'' \<and>
   13 \<in> set truthiness_rows \<and> (13, [''dividendYield'']) \<in> set row_keys \<and>
   \<not> truthy (get info_zeros ''dividendYield'') \<and> financial_rows info_zeros ! 13 = Inr ''N/A'' \<and>
   16 \<in> set truthiness_rows \<and> (16, [''volume'', ''regularMarketVolume'']) \<in> set row_keys \<and>
   \<not> truthy (get info_zeros ''volume'') \<and> \<not> truthy (get info_zeros ''regularMarketVolume'') \<and>
   financial_rows info_zeros ! 16 = Inr ''N/A'' \<and>
   pe_ratio_tile info_zeros = Inr ''N/A'' \<and> dividend_yield_tile info_zeros = Inr ''N/A'' \<and>
   volume_tile info_zeros = Inr ''N/A'' \<and> price_value info_zeros = Inr ''N/A'' \<and>
   7 \<in> set magnitude_rows \<and> (7, [''marketCap'']) \<in> set row_keys \<and>
   info_zeros ''marketCap'' = Some (PyNum 0) \<and> financial_rows info_zeros ! 7 = Inr ''$0.00'' \<and>
   market_cap_tile info_zeros = Inr ''$0.00''"
proof -
  have k: "\<not> truthy (get info_zeros ''trailingPE'')" "\<not> truthy (get info_zeros ''dividendYield'')"
    "\<not> truthy (get info_zeros ''volume'')" "\<not> truthy (get info_zeros ''regularMarketVolume'')"
    "\<not> truthy (get info_zeros ''currentPrice'')" "\<not> truthy (get info_zeros ''regularMarketPrice'')"
    "info_zeros ''marketCap'' = Some (PyNum 0)"
    by (simp_all add: info_zeros_def get_def)
  have m: "8 \<in> set truthiness_rows" "13 \<in> set truthiness_rows" "16 \<in> set truthiness_rows"
    "7 \<in> set magnitude_rows" "(8, [''trailingPE'']) \<in> set row_keys"
    "(13, [''dividendYield'']) \<in> set row_keys"
    "(16, [''volume'', ''regularMarketVolume'']) \<in> set row_keys"
    "(7, [''marketCap'']) \<in> set row_keys"
    by (simp_all add: truthiness_rows_def magnitude_rows_def row_keys_def)
  show ?thesis
    using zero_renders [of 8 "[''trailingPE'']" info_zeros "''beta''"]
      zero_renders [of 13 "[''dividendYield'']" info_zeros "''beta''"]
      zero_renders [of 16 "[''volume'', ''regularMarketVolume'']" info_zeros "''beta''"]
      zero_renders [of 7 "[''marketCap'']" info_zeros "''beta''"]
      k m
    by simp
qed

section \<open>Properties of the price change\<close>











section \<open>Properties of the fetch\<close>

lemma fetch_handler_alt:
  "fetch_handler prov inp st =
     (if attempts inp st
      then (case get_stock_data prov (input_symbol inp) (period inp) of
              (hist, info, error) \<Rightarrow>
                (let calls = [the_call prov inp]
                 in if str_truthy error
                    then (st, [error_message (case error of None \<Rightarrow> [] | Some e \<Rightarrow> e)], calls)
                    else if none_or_empty hist
                    then (st, [no_data_message (input_symbol inp)], calls)
                    else (st\<lparr>stock_data := hist, stock_info := info,
                              symbol := Some (input_symbol inp)\<rparr>, [], calls)))
      else (st, [], []))"
  unfolding fetch_handler_def attempts_def the_call_def by (rule refl)

lemma fetch_not_attempted:
  "\<not> attempts inp st \<Longrightarrow> fetch_handler prov inp st = (st, [], [])"
  by (simp add: fetch_handler_alt)

lemma fetch_raises:
  assumes "attempts inp st" "prov (input_symbol inp) (period inp) = Raises e"
  shows "fetch_handler prov inp st =
           (st, [if e \<noteq> [] then error_message e else no_data_message (input_symbol inp)],
            [the_call prov inp])"
  using assms
  by (simp add: fetch_handler_alt get_stock_data_def str_truthy_def
      none_or_empty_def Let_def)

lemma fetch_empty:
  assumes "attempts inp st" "prov (input_symbol inp) (period inp) = Returns h info"
    "none_or_empty h"
  shows "fetch_handler prov inp st = (st, [no_data_message (input_symbol inp)], [the_call prov inp])"
  using assms
  by (simp add: fetch_handler_alt get_stock_data_def str_truthy_def Let_def)

lemma fetch_success:
  assumes "attempts inp st" "prov (input_symbol inp) (period inp) = Returns (Some hist) info"
    "\<not> empty hist"
  shows "fetch_handler prov inp st = (stored inp hist info, [], [the_call prov inp])"
  using assms
  by (simp add: fetch_handler_alt get_stock_data_def str_truthy_def
      none_or_empty_def stored_def Let_def)


lemma fetch_outcomes:
  "fetch_handler prov inp st = (st, [], []) \<and> \<not> attempts inp st \<or>
   (\<exists>m. fetch_handler prov inp st = (st, [m], [the_call prov inp]) \<and> attempts inp st \<and>
        \<not> successful (the_call prov inp)) \<or>
   (\<exists>hist info. fetch_handler prov inp st = (stored inp hist info, [], [the_call prov inp]) \<and>
        attempts inp st \<and> prov (input_symbol inp) (period inp) = Returns (Some hist) info \<and>
        \<not> empty hist)"
proof (cases "attempts inp st")
  case False
  then show ?thesis using fetch_not_attempted by simp
next
  case True
  show ?thesis
  proof (cases "prov (input_symbol inp) (period inp)")
    case (Raises e)
    with True fetch_raises [of inp st prov e] show ?thesis by (simp add: the_call_def)
  next
    case (Returns h info)
    show ?thesis
    proof (cases "none_or_empty h")
      case True
      with \<open>attempts inp st\<close> Returns fetch_empty [of inp st prov h info]
      show ?thesis by (cases h) (simp_all add: the_call_def none_or_empty_def)
    next
      case False
      then obtain hist where h: "h = Some hist" "\<not> empty hist"
        by (cases h) (simp_all add: none_or_empty_def)
      with \<open>attempts inp st\<close> Returns fetch_success [of inp st prov hist info]
      show ?thesis by simp
    qed
  qed
qed
lemma init_fresh:
  "init_session_state fresh = \<lparr>stock_data = None, stock_info = None, symbol = None\<rparr>"
  by (simp add: init_session_state_def fresh_def)

lemma attempts_inp0: "attempts inp0 (init_session_state fresh)"
  by (simp add: attempts_def inp0_def init_fresh)

lemma hist2_not_empty: "\<not> empty hist2"
  by (simp add: empty_def hist2_def)



section \<open>The session state across runs\<close>

lemma render_bars: "render hist io = (hist', pg) \<Longrightarrow> bars hist' = bars hist"
  using bars_price_chart [of hist]
  by (auto simp: render_def split: option.splits sum.splits prod.splits)

lemma consistent_alt:
  "consistent trail s =
     (if filter successful trail = [] then fully_absent s
      else holds_call s (last (filter successful trail)))"
  by (simp add: consistent_def split: list.splits)

lemma successful_the_call:
  "prov (input_symbol inp) (period inp) = Returns (Some hist) info \<Longrightarrow> \<not> empty hist \<Longrightarrow>
   successful (the_call prov inp)"
  by (simp add: the_call_def)

lemma holds_call_the_call:
  "prov (input_symbol inp) (period inp) = Returns (Some hist) info \<Longrightarrow>
   holds_call s (the_call prov inp) =
     (stored_symbol s = Some (Some (input_symbol inp)) \<and> stored_info s = Some (Some info) \<and>
      (case stored_data s of Some (Some h) \<Rightarrow> bars h = bars hist | _ \<Rightarrow> False))"
  by (simp add: the_call_def)

lemma run_unchanged:
  assumes "fetch_handler prov inp (init_session_state s) = (init_session_state s, errors, calls)"
    and "run_script prov inp s = (s', errors', calls', pg)"
  shows "(fully_absent s \<longrightarrow> fully_absent s') \<and> (holds_call s c \<longrightarrow> holds_call s' c)"
proof -
  have abs: "fully_absent s \<longrightarrow> fully_absent s'"
    using assms
    by (auto simp: run_script_def fully_absent_def init_session_state_def keep_def
        split: option.splits)
  have hold: "holds_call s c \<longrightarrow> holds_call s' c"
  proof
    assume h: "holds_call s c"
    then obtain symb per hist info where c: "c = (symb, per, Returns (Some hist) info)"
      by (cases c rule: successful.cases) simp_all
    from h c obtain h0 where s: "stored_symbol s = Some (Some symb)"
      "stored_info s = Some (Some info)" "stored_data s = Some (Some h0)" "bars h0 = bars hist"
      by (auto split: option.splits)
    show "holds_call s' c"
    proof (cases "empty h0")
      case True
      with assms s c show ?thesis
        by (auto simp: run_script_def init_session_state_def keep_def)
    next
      case False
      obtain h1 pg1 where r: "render h0 (Some info) = (h1, pg1)"
        by (cases "render h0 (Some info)")
      from render_bars [OF r] s have "bars h1 = bars hist" by simp
      with assms s c r False show ?thesis
        by (auto simp: run_script_def init_session_state_def keep_def)
    qed
  qed
  from abs hold show ?thesis by simp
qed

lemma run_stored:
  assumes "fetch_handler prov inp (init_session_state s) = (stored inp hist info, errors, calls)"
    and "\<not> empty hist"
    and "run_script prov inp s = (s', errors', calls', pg)"
  shows "stored_symbol s' = Some (Some (input_symbol inp)) \<and> stored_info s' = Some (Some info) \<and>
         (case stored_data s' of Some (Some h) \<Rightarrow> bars h = bars hist | _ \<Rightarrow> False)"
proof -
  obtain h1 pg1 where r: "render hist (Some info) = (h1, pg1)"
    by (cases "render hist (Some info)")
  from render_bars [OF r] have "bars h1 = bars hist" .
  with assms r show ?thesis
    by (auto simp: run_script_def stored_def keep_def)
qed

lemma run_calls:
  "run_script prov inp s = (s', errors, calls, pg) \<Longrightarrow>
   calls = snd (snd (fetch_handler prov inp (init_session_state s)))"
  by (auto simp: run_script_def split: prod.splits option.splits if_splits)

lemma run_consistent:
  assumes "consistent trail s" "run_script prov inp s = (s', errors, calls, pg)"
  shows "consistent (trail @ calls) s'"
proof -
  let ?st = "init_session_state s"
  note c = run_calls [OF assms(2)]
  from fetch_outcomes [of prov inp ?st]
  consider (idle) "fetch_handler prov inp ?st = (?st, [], [])"
    | (failed) m where "fetch_handler prov inp ?st = (?st, [m], [the_call prov inp])"
        "\<not> successful (the_call prov inp)"
    | (ok) hist info where
        "fetch_handler prov inp ?st = (stored inp hist info, [], [the_call prov inp])"
        "prov (input_symbol inp) (period inp) = Returns (Some hist) info" "\<not> empty hist"
    by blast
  then show ?thesis
  proof cases
    case idle
    with c have "calls = []" by simp
    with assms(1) run_unchanged [OF idle assms(2)] show ?thesis
      by (simp add: consistent_alt)
  next
    case failed
    with c have "filter successful (trail @ calls) = filter successful trail" by simp
    with assms(1) run_unchanged [OF failed(1) assms(2)] show ?thesis
      by (simp add: consistent_alt)
  next
    case ok
    with c have "calls = [the_call prov inp]" by simp
    with ok run_stored [OF ok(1) ok(3) assms(2)] show ?thesis
      by (simp add: consistent_alt successful_the_call holds_call_the_call)
  qed
qed

lemma reachable_consistent: "reachable trail s \<Longrightarrow> consistent trail s"
proof (induction rule: reachable.induct)
  case start
  show ?case by (simp add: consistent_def fully_absent_def fresh_def)
next
  case (run trail s prov inp s' errors calls pg)
  then show ?case using run_consistent by blast
qed

text \<open>
  C5. The fetch handler either leaves the three variables of the session state as they were
  or sets all three from one answer of the provider that has a non-empty history. In every
  state a session can reach, either the three keys are all unset or \<^verbatim>\<open>None\<close> and no call has
  been stored so far, or they hold the symbol, the metadata and the bars of the last call
  that was stored.
\<close>

theorem session_state_atomic:
  "(fetch_handler prov inp st = (st, [], []) \<or>
    (\<exists>m. fetch_handler prov inp st = (st, [m], [the_call prov inp])) \<or>
    (\<exists>hist info. fetch_handler prov inp st = (stored inp hist info, [], [the_call prov inp]) \<and>
       prov (input_symbol inp) (period inp) = Returns (Some hist) info \<and> \<not> empty hist)) \<and>
   (reachable trail s \<longrightarrow> consistent trail s) \<and>
   (consistent trail s \<longrightarrow>
      fully_absent s \<and> filter successful trail = [] \<or>
      (\<exists>symb per hist info h.
         last (filter successful trail) = (symb, per, Returns (Some hist) info) \<and>
         (symb, per, Returns (Some hist) info) \<in> set trail \<and> \<not> empty hist \<and>
         stored_symbol s = Some (Some symb) \<and> stored_info s = Some (Some info) \<and>
         stored_data s = Some (Some h) \<and> bars h = bars hist))"
proof -
  have a: "fetch_handler prov inp st = (st, [], []) \<or>
    (\<exists>m. fetch_handler prov inp st = (st, [m], [the_call prov inp])) \<or>
    (\<exists>hist info. fetch_handler prov inp st = (stored inp hist info, [], [the_call prov inp]) \<and>
       prov (input_symbol inp) (period inp) = Returns (Some hist) info \<and> \<not> empty hist)"
    using fetch_outcomes [of prov inp st] by blast
  have b: "reachable trail s \<longrightarrow> consistent trail s"
    using reachable_consistent by blast
  have c: "consistent trail s \<longrightarrow>
      fully_absent s \<and> filter successful trail = [] \<or>
      (\<exists>symb per hist info h.
         last (filter successful trail) = (symb, per, Returns (Some hist) info) \<and>
         (symb, per, Returns (Some hist) info) \<in> set trail \<and> \<not> empty hist \<and>
         stored_symbol s = Some (Some symb) \<and> stored_info s = Some (Some info) \<and>
         stored_data s = Some (Some h) \<and> bars h = bars hist)"
  proof
    assume k: "consistent trail s"
    show "fully_absent s \<and> filter successful trail = [] \<or>
      (\<exists>symb per hist info h.
         last (filter successful trail) = (symb, per, Returns (Some hist) info) \<and>
         (symb, per, Returns (Some hist) info) \<in> set trail \<and> \<not> empty hist \<and>
         stored_symbol s = Some (Some symb) \<and> stored_info s = Some (Some info) \<and>
         stored_data s = Some (Some h) \<and> bars h = bars hist)"
    proof (cases "filter successful trail = []")
      case True
      with k show ?thesis by (simp add: consistent_alt)
    next
      case False
      let ?c = "last (filter successful trail)"
      from False have m: "?c \<in> set (filter successful trail)" by (rule last_in_set)
      then have sc: "successful ?c" and tr: "?c \<in> set trail" by simp_all
      from sc obtain symb per hist info where
        c: "?c = (symb, per, Returns (Some hist) info)" and ne: "\<not> empty hist"
        by (cases ?c rule: successful.cases) simp_all
      from k False c have "holds_call s (symb, per, Returns (Some hist) info)"
        by (simp add: consistent_alt)
      then obtain h where "stored_symbol s = Some (Some symb)" "stored_info s = Some (Some info)"
        "stored_data s = Some (Some h)" "bars h = bars hist"
        by (auto split: option.splits)
      with c ne tr show ?thesis by auto
    qed
  qed
  from a b c show ?thesis by blast
qed

theorem session_state_atomic_witness:
  "reachable [(''AAPL'', ''1y'', Returns (Some hist2) Map.empty)]
     \<lparr>stored_data = Some (Some (fst (price_chart hist2))), stored_info = Some (Some Map.empty),
      stored_symbol = Some (Some ''AAPL'')\<rparr> \<and>
   consistent [(''AAPL'', ''1y'', Returns (Some hist2) Map.empty)]
     \<lparr>stored_data = Some (Some (fst (price_chart hist2))), stored_info = Some (Some Map.empty),
      stored_symbol = Some (Some ''AAPL'')\<rparr> \<and>
   bars (fst (price_chart hist2)) = bars hist2 \<and>
   reachable [] fresh \<and> consistent [] fresh \<and> fully_absent fresh"
proof -
  let ?c = "(''AAPL'', ''1y'', Returns (Some hist2) Map.empty)"
  let ?s = "\<lparr>stored_data = Some (Some (fst (price_chart hist2))),
      stored_info = Some (Some Map.empty), stored_symbol = Some (Some ''AAPL'')\<rparr>"
  obtain d where d: "render hist2 (Some Map.empty) = (fst (price_chart hist2), Shown d)"
    using render_empty_info by blast
  have f: "fetch_handler prov_ok inp0 (init_session_state fresh) =
     (stored inp0 hist2 Map.empty, [], [the_call prov_ok inp0])"
    using fetch_success [of inp0 "init_session_state fresh" prov_ok hist2 Map.empty]
      attempts_inp0 hist2_not_empty by (simp add: prov_ok_def)
  have r: "run_script prov_ok inp0 fresh = (?s, [], [?c], Shown d)"
    using f d hist2_not_empty
    by (simp add: run_script_def stored_def keep_def the_call_def inp0_def prov_ok_def)
  have reach: "reachable ([] @ [?c]) ?s"
    using reachable.run [OF reachable.start r] .
  then have reach': "reachable [?c] ?s" by simp
  have c1: "consistent [?c] ?s"
    using session_state_atomic [where trail = "[?c]" and s = ?s,
        THEN conjunct2, THEN conjunct1] reach' by simp
  have c0: "consistent [] fresh"
    using session_state_atomic [where trail = "[]" and s = fresh,
        THEN conjunct2, THEN conjunct1] reachable.start by simp
  have fa: "fully_absent fresh"
    using session_state_atomic [where trail = "[]" and s = fresh,
        THEN conjunct2, THEN conjunct2] c0 by simp
  from reach' c1 c0 fa reachable.start bars_price_chart [of hist2] show ?thesis by simp
qed

end
